theory Spec2Isabelle
  imports Complex_Main
begin

section \<open>Multi-product CVP analysis: the calculation engine of CVPsite.py\<close>

text \<open>
  The script reads a fixed cost and a list of products from input widgets, keeps the
  products with a positive quantity, pools their revenue, variable cost, contribution
  margin and quantity, derives the CVP metrics and builds the data of the chart.

  Numbers. The script computes with binary floating point. Finite values are modelled
  as exact reals, so rounding and overflow are not part of the model, and the constant
  1.2 of line 87 is the exact fraction 6/5. The three non-finite values a float can take
  are kept, because the script produces \<open>float('inf')\<close> on purpose and then
  computes with it.

  Exceptions. A result of type \<open>py_error + 'a\<close> is \<open>Inl e\<close> when the evaluation raises
  \<open>e\<close>. Every division of the script goes through \<open>fdiv\<close>, which yields
  \<open>Inl ZeroDivisionError\<close> exactly when the divisor is zero. A Python float raises
  there; a numpy scalar, which the column sums are, gives an infinity or NaN with a
  warning. The model reports the zero divisor in both cases, so a run that ends in
  \<open>Inr\<close> has evaluated no division by zero under either behaviour.

  The input widgets, the formatting of the metrics and the drawing calls (lines 5-30,
  67-85 and 92-112 apart from lines 100 and 108) are not modelled.
\<close>

subsection \<open>Floats and exceptions\<close>

datatype pyfloat = Fin real | PInf | NInf | NaN

fun fneg :: "pyfloat \<Rightarrow> pyfloat" where
  "fneg (Fin x) = Fin (- x)"
| "fneg PInf = NInf"
| "fneg NInf = PInf"
| "fneg NaN = NaN"

fun fadd :: "pyfloat \<Rightarrow> pyfloat \<Rightarrow> pyfloat" where
  "fadd (Fin x) (Fin y) = Fin (x + y)"
| "fadd NaN _ = NaN"
| "fadd _ NaN = NaN"
| "fadd PInf NInf = NaN"
| "fadd NInf PInf = NaN"
| "fadd PInf _ = PInf"
| "fadd _ PInf = PInf"
| "fadd NInf _ = NInf"
| "fadd _ NInf = NInf"

definition fsub :: "pyfloat \<Rightarrow> pyfloat \<Rightarrow> pyfloat" where
  "fsub a b = fadd a (fneg b)"

text \<open>The product of an infinity and a finite value: zero gives NaN, otherwise the sign decides.\<close>

definition inf_times :: "bool \<Rightarrow> real \<Rightarrow> pyfloat" where
  "inf_times positive x =
     (if x = 0 then NaN else if (0 < x) = positive then PInf else NInf)"

fun fmul :: "pyfloat \<Rightarrow> pyfloat \<Rightarrow> pyfloat" where
  "fmul (Fin x) (Fin y) = Fin (x * y)"
| "fmul NaN _ = NaN"
| "fmul _ NaN = NaN"
| "fmul PInf (Fin y) = inf_times True y"
| "fmul NInf (Fin y) = inf_times False y"
| "fmul (Fin x) PInf = inf_times True x"
| "fmul (Fin x) NInf = inf_times False x"
| "fmul PInf PInf = PInf"
| "fmul NInf NInf = PInf"
| "fmul PInf NInf = NInf"
| "fmul NInf PInf = NInf"

datatype py_error = ZeroDivisionError | ValueError

definition fdiv :: "real \<Rightarrow> real \<Rightarrow> py_error + real" where
  "fdiv a b = (if b = 0 then Inl ZeroDivisionError else Inr (a / b))"

definition bind_r :: "py_error + 'a \<Rightarrow> ('a \<Rightarrow> py_error + 'b) \<Rightarrow> py_error + 'b" where
  "bind_r m f = (case m of Inl e \<Rightarrow> Inl e | Inr x \<Rightarrow> f x)"

text \<open>A list comprehension whose body may raise: the first exception ends it.\<close>

fun map_r :: "('a \<Rightarrow> py_error + 'b) \<Rightarrow> 'a list \<Rightarrow> py_error + 'b list" where
  "map_r f [] = Inr []"
| "map_r f (x # xs) = bind_r (f x) (\<lambda>y. bind_r (map_r f xs) (\<lambda>ys. Inr (y # ys)))"

text \<open>\<open>int(x)\<close> on a finite float truncates towards zero.\<close>

definition py_int :: "real \<Rightarrow> int" where
  "py_int x = (if 0 \<le> x then \<lfloor>x\<rfloor> else \<lceil>x\<rceil>)"

text \<open>\<open>range(start, stop, step)\<close>; a zero step raises ValueError.\<close>

definition py_range :: "int \<Rightarrow> int \<Rightarrow> int \<Rightarrow> py_error + int list" where
  "py_range start stop step =
     (if step = 0 then Inl ValueError
      else if 0 < step
        then Inr (map (\<lambda>k. start + int k * step) [0..<nat ((stop - start + step - 1) div step)])
        else Inr (map (\<lambda>k. start + int k * step) [0..<nat ((start - stop - step - 1) div (- step))]))"

subsection \<open>Products and the active rows (lines 32-46)\<close>

record product =
  product_label :: string
  selling_price :: real
  variable_cost :: real
  quantity_sold :: real

text \<open>Lines 32-37: the row appended for one product, from the values of its three inputs.\<close>

definition product_row :: "string \<Rightarrow> real \<Rightarrow> real \<Rightarrow> real \<Rightarrow> product" where
  "product_row label price cost quantity =
     \<lparr> product_label = label, selling_price = price, variable_cost = cost,
       quantity_sold = quantity \<rparr>"

text \<open>A row of \<open>df_active\<close> after the three derived columns are added.\<close>

record active_row = product +
  row_total_revenue :: real
  row_total_variable_cost :: real
  row_contribution_margin :: real

text \<open>Line 41: \<open>df[df["Quantity Sold"] > 0]\<close>.\<close>

definition df_active :: "product list \<Rightarrow> product list" where
  "df_active products = filter (\<lambda>p. 0 < quantity_sold p) products"

text \<open>Lines 44-46, for one row.\<close>

definition add_columns :: "product \<Rightarrow> active_row" where
  "add_columns p =
     (let revenue = selling_price p * quantity_sold p;
          cost = variable_cost p * quantity_sold p
      in \<lparr> product_label = product_label p, selling_price = selling_price p,
           variable_cost = variable_cost p, quantity_sold = quantity_sold p,
           row_total_revenue = revenue, row_total_variable_cost = cost,
           row_contribution_margin = revenue - cost \<rparr>)"

subsection \<open>Pooled totals (lines 51-54)\<close>

record pooled_totals =
  total_revenue :: real
  total_variable_cost :: real
  total_cm :: real
  total_quantity :: real

text \<open>The four column sums; the sum of an empty column is 0.\<close>

definition pool :: "active_row list \<Rightarrow> pooled_totals" where
  "pool rows =
     \<lparr> total_revenue = sum_list (map row_total_revenue rows),
       total_variable_cost = sum_list (map row_total_variable_cost rows),
       total_cm = sum_list (map row_contribution_margin rows),
       total_quantity = sum_list (map quantity_sold rows) \<rparr>"

text \<open>Lines 41, 44-46 and 51-54 together: the summary rows and their totals.\<close>

definition aggregate :: "product list \<Rightarrow> active_row list \<times> pooled_totals" where
  "aggregate products = (let rows = map add_columns (df_active products) in (rows, pool rows))"

subsection \<open>The metrics (lines 56-65)\<close>

record cvp_metrics =
  cm_per_unit :: real
  cm_ratio :: real
  vc_ratio :: real
  break_even_units :: pyfloat
  break_even_dollars :: pyfloat
  mos_units :: pyfloat
  mos_dollars :: pyfloat
  net_operating_income :: real
  dol :: pyfloat

datatype metrics_result = InsufficientData | Computed cvp_metrics

text \<open>\<open>a / b if b != 0 else float('inf')\<close>.\<close>

definition div_or_inf :: "real \<Rightarrow> real \<Rightarrow> py_error + pyfloat" where
  "div_or_inf a b = (if b \<noteq> 0 then bind_r (fdiv a b) (\<lambda>q. Inr (Fin q)) else Inr PInf)"

definition compute_metrics :: "pooled_totals \<Rightarrow> real \<Rightarrow> py_error + metrics_result" where
  "compute_metrics totals fixed_cost =
     (if 0 < total_quantity totals \<and> 0 < total_revenue totals then
        bind_r (fdiv (total_cm totals) (total_quantity totals)) (\<lambda>cmpu.
        bind_r (fdiv (total_cm totals) (total_revenue totals)) (\<lambda>cmr.
        bind_r (fdiv (total_variable_cost totals) (total_revenue totals)) (\<lambda>vcr.
        bind_r (div_or_inf fixed_cost cmpu) (\<lambda>beu.
        bind_r (div_or_inf fixed_cost cmr) (\<lambda>bed.
        let mosu = fsub (Fin (total_quantity totals)) beu;
            mosd = fsub (Fin (total_revenue totals)) bed;
            noi = total_cm totals - fixed_cost
        in bind_r (div_or_inf (total_cm totals) noi) (\<lambda>d.
           Inr (Computed \<lparr> cm_per_unit = cmpu, cm_ratio = cmr, vc_ratio = vcr,
                  break_even_units = beu, break_even_dollars = bed,
                  mos_units = mosu, mos_dollars = mosd,
                  net_operating_income = noi, dol = d \<rparr>)))))))
      else Inr InsufficientData)"

subsection \<open>The chart data (lines 87-91 and 108)\<close>

text \<open>Line 87.\<close>

definition max_units :: "real \<Rightarrow> int" where
  "max_units tq = (if 0 < tq then py_int (tq * 1.2) else 1)"

text \<open>Line 88: the step is \<open>max(1, int(max_units / 100))\<close>.\<close>

definition units_step :: "int \<Rightarrow> py_error + int" where
  "units_step mu = bind_r (fdiv (of_int mu) 100) (\<lambda>q. Inr (max 1 (py_int q)))"

definition units :: "real \<Rightarrow> py_error + int list" where
  "units tq = bind_r (units_step (max_units tq)) (\<lambda>step. py_range 0 (max_units tq + 1) step)"

record chart =
  x_limit :: int
  sample_units :: "int list"
  total_cost_line :: "real list"
  total_revenue_line :: "real list"
  be_x :: pyfloat
  be_y :: pyfloat

text \<open>Lines 90 and 91: each element of a comprehension evaluates its own division.\<close>

definition cost_at :: "pooled_totals \<Rightarrow> real \<Rightarrow> int \<Rightarrow> py_error + real" where
  "cost_at totals fixed_cost u =
     bind_r (fdiv (total_variable_cost totals) (total_quantity totals))
       (\<lambda>rate. Inr (fixed_cost + rate * of_int u))"

definition revenue_at :: "pooled_totals \<Rightarrow> int \<Rightarrow> py_error + real" where
  "revenue_at totals u =
     bind_r (fdiv (total_revenue totals) (total_quantity totals))
       (\<lambda>rate. Inr (rate * of_int u))"

text \<open>Line 108.\<close>

definition marker_y :: "pooled_totals \<Rightarrow> real \<Rightarrow> pyfloat \<Rightarrow> py_error + pyfloat" where
  "marker_y totals fixed_cost beu =
     bind_r (fdiv (total_variable_cost totals) (total_quantity totals))
       (\<lambda>rate. Inr (fadd (Fin fixed_cost) (fmul (Fin rate) beu)))"

definition chart_series :: "pooled_totals \<Rightarrow> real \<Rightarrow> cvp_metrics \<Rightarrow> py_error + chart" where
  "chart_series totals fixed_cost m =
     bind_r (units (total_quantity totals)) (\<lambda>us.
     bind_r (map_r (cost_at totals fixed_cost) us) (\<lambda>costs.
     bind_r (map_r (revenue_at totals) us) (\<lambda>revenues.
     bind_r (marker_y totals fixed_cost (break_even_units m)) (\<lambda>y.
     Inr \<lparr> x_limit = max_units (total_quantity totals), sample_units = us,
           total_cost_line = costs, total_revenue_line = revenues,
           be_x = break_even_units m, be_y = y \<rparr>))))"

subsection \<open>The script (lines 41-116)\<close>

text \<open>
  What a run shows: the information message of line 116, the table and the warning of
  line 114, or the table, the metrics and the chart.
\<close>

datatype outcome =
    EmptyActiveSet
  | Warning "active_row list"
  | Results "active_row list" pooled_totals cvp_metrics chart

definition cvp_site :: "real \<Rightarrow> product list \<Rightarrow> py_error + outcome" where
  "cvp_site fixed_cost products =
     (let active = df_active products in
      if active \<noteq> [] then
        (let rows = map add_columns active; totals = pool rows in
         bind_r (compute_metrics totals fixed_cost) (\<lambda>r.
           case r of
             Computed m \<Rightarrow>
               bind_r (chart_series totals fixed_cost m) (\<lambda>c. Inr (Results rows totals m c))
           | InsufficientData \<Rightarrow> Inr (Warning rows)))
      else Inr EmptyActiveSet)"

section \<open>Properties\<close>

subsection \<open>Evaluation of the guarded divisions\<close>

lemma bind_r_Inr: "bind_r (Inr x) f = f x"
  by (simp add: bind_r_def)

lemma fdiv_nonzero: "b \<noteq> 0 \<Longrightarrow> fdiv a b = Inr (a / b)"
  by (simp add: fdiv_def)

lemma div_or_inf_total: "div_or_inf a b = Inr (if b \<noteq> 0 then Fin (a / b) else PInf)"
  by (simp add: div_or_inf_def fdiv_def bind_r_Inr)

lemma compute_metrics_success:
  assumes "0 < total_quantity totals" and "0 < total_revenue totals"
  shows "\<exists>m. compute_metrics totals fixed_cost = Inr (Computed m)
    \<and> cm_per_unit m = total_cm totals / total_quantity totals
    \<and> cm_ratio m = total_cm totals / total_revenue totals
    \<and> vc_ratio m = total_variable_cost totals / total_revenue totals
    \<and> break_even_units m = (if cm_per_unit m \<noteq> 0 then Fin (fixed_cost / cm_per_unit m) else PInf)
    \<and> break_even_dollars m = (if cm_ratio m \<noteq> 0 then Fin (fixed_cost / cm_ratio m) else PInf)
    \<and> mos_units m = fsub (Fin (total_quantity totals)) (break_even_units m)
    \<and> mos_dollars m = fsub (Fin (total_revenue totals)) (break_even_dollars m)
    \<and> net_operating_income m = total_cm totals - fixed_cost
    \<and> dol m = (if net_operating_income m \<noteq> 0
                then Fin (total_cm totals / net_operating_income m) else PInf)"
  using assms
  by (simp add: compute_metrics_def fdiv_nonzero bind_r_Inr div_or_inf_total Let_def)

lemma compute_metrics_insufficient:
  assumes "\<not> (0 < total_quantity totals \<and> 0 < total_revenue totals)"
  shows "compute_metrics totals fixed_cost = Inr InsufficientData"
  unfolding compute_metrics_def using assms by (simp only: if_False)

text \<open>
  C1. The metrics are computed exactly when the pooled quantity and the pooled revenue
  are both positive. In every other case the result is \<open>InsufficientData\<close>: the branch
  evaluates no division, so the result is never a raised exception, also when a total
  is zero.
\<close>

theorem compute_metrics_succeeds_iff:
  "((\<exists>m. compute_metrics totals fixed_cost = Inr (Computed m)) \<longleftrightarrow>
         (0 < total_quantity totals \<and> 0 < total_revenue totals))
   \<and> (\<not> (0 < total_quantity totals \<and> 0 < total_revenue totals) \<longrightarrow>
         compute_metrics totals fixed_cost = Inr InsufficientData)"
proof (cases "0 < total_quantity totals \<and> 0 < total_revenue totals")
  case True
  then obtain m where "compute_metrics totals fixed_cost = Inr (Computed m)"
    using compute_metrics_success [of totals fixed_cost] by blast
  with True show ?thesis by blast
next
  case False
  then show ?thesis by (simp add: compute_metrics_insufficient)
qed

theorem compute_metrics_succeeds_iff_witness:
  "(0 < total_quantity \<lparr> total_revenue = 5000, total_variable_cost = 2500, total_cm = 2500, total_quantity = 500 \<rparr>
    \<and> 0 < total_revenue \<lparr> total_revenue = 5000, total_variable_cost = 2500, total_cm = 2500, total_quantity = 500 \<rparr>)
   \<and> (\<exists>m. compute_metrics \<lparr> total_revenue = 5000, total_variable_cost = 2500, total_cm = 2500, total_quantity = 500 \<rparr> 5000
          = Inr (Computed m))
   \<and> \<not> (0 < total_quantity \<lparr> total_revenue = 0, total_variable_cost = 500, total_cm = - 500, total_quantity = 100 \<rparr>
        \<and> 0 < total_revenue \<lparr> total_revenue = 0, total_variable_cost = 500, total_cm = - 500, total_quantity = 100 \<rparr>)
   \<and> compute_metrics \<lparr> total_revenue = 0, total_variable_cost = 500, total_cm = - 500, total_quantity = 100 \<rparr> 5000
        = Inr InsufficientData"
  using compute_metrics_succeeds_iff
          [of "\<lparr> total_revenue = 5000, total_variable_cost = 2500, total_cm = 2500, total_quantity = 500 \<rparr>" 5000]
        compute_metrics_succeeds_iff
          [of "\<lparr> total_revenue = 0, total_variable_cost = 500, total_cm = - 500, total_quantity = 100 \<rparr>" 5000]
  by simp

text \<open>
  C2. When the pooled quantity and revenue are positive the metrics are returned, and a
  zero contribution margin per unit, a zero contribution margin ratio and a zero net
  operating income give positive infinity for the break-even units, the break-even
  dollars and the degree of operating leverage.
\<close>

theorem infinity_sentinels:
  assumes "0 < total_quantity totals" and "0 < total_revenue totals"
  shows "\<exists>m. compute_metrics totals fixed_cost = Inr (Computed m)
    \<and> (cm_per_unit m = 0 \<longrightarrow> break_even_units m = PInf)
    \<and> (cm_ratio m = 0 \<longrightarrow> break_even_dollars m = PInf)
    \<and> (net_operating_income m = 0 \<longrightarrow> dol m = PInf)"
proof -
  obtain m where m: "compute_metrics totals fixed_cost = Inr (Computed m)"
    "break_even_units m = (if cm_per_unit m \<noteq> 0 then Fin (fixed_cost / cm_per_unit m) else PInf)"
    "break_even_dollars m = (if cm_ratio m \<noteq> 0 then Fin (fixed_cost / cm_ratio m) else PInf)"
    "dol m = (if net_operating_income m \<noteq> 0
                then Fin (total_cm totals / net_operating_income m) else PInf)"
    using compute_metrics_success [OF assms, of fixed_cost] by blast
  show ?thesis
  proof (intro exI conjI)
    show "compute_metrics totals fixed_cost = Inr (Computed m)" by (rule m(1))
    show "cm_per_unit m = 0 \<longrightarrow> break_even_units m = PInf" by (simp add: m(2))
    show "cm_ratio m = 0 \<longrightarrow> break_even_dollars m = PInf" by (simp add: m(3))
    show "net_operating_income m = 0 \<longrightarrow> dol m = PInf" by (simp add: m(4))
  qed
qed

theorem infinity_sentinels_witness:
  "0 < total_quantity \<lparr> total_revenue = 5, total_variable_cost = 5, total_cm = 0, total_quantity = 1 \<rparr>
   \<and> 0 < total_revenue \<lparr> total_revenue = 5, total_variable_cost = 5, total_cm = 0, total_quantity = 1 \<rparr>
   \<and> (\<exists>m. compute_metrics \<lparr> total_revenue = 5, total_variable_cost = 5, total_cm = 0, total_quantity = 1 \<rparr> 0
            = Inr (Computed m)
        \<and> cm_per_unit m = 0 \<and> break_even_units m = PInf
        \<and> cm_ratio m = 0 \<and> break_even_dollars m = PInf
        \<and> net_operating_income m = 0 \<and> dol m = PInf)"
proof -
  let ?t = "\<lparr> total_revenue = 5, total_variable_cost = 5, total_cm = 0, total_quantity = (1::real) \<rparr>"
  have q: "0 < total_quantity ?t" and r: "0 < total_revenue ?t" by simp_all
  obtain m where m: "compute_metrics ?t 0 = Inr (Computed m)"
    "cm_per_unit m = 0 \<longrightarrow> break_even_units m = PInf"
    "cm_ratio m = 0 \<longrightarrow> break_even_dollars m = PInf"
    "net_operating_income m = 0 \<longrightarrow> dol m = PInf"
    using infinity_sentinels [OF q r, of 0] by blast
  have "compute_metrics ?t 0 = Inr (Computed \<lparr> cm_per_unit = 0, cm_ratio = 0, vc_ratio = 1,
          break_even_units = PInf, break_even_dollars = PInf, mos_units = NInf,
          mos_dollars = NInf, net_operating_income = 0, dol = PInf \<rparr>)"
    by (simp add: compute_metrics_def fdiv_def bind_r_def div_or_inf_def fsub_def)
  with m(1) have z: "cm_per_unit m = 0" "cm_ratio m = 0" "net_operating_income m = 0" by auto
  with m q r show ?thesis by blast
qed

text \<open>
  C5. When the metrics are computed and the contribution margin per unit is not zero, the
  break-even units are finite and the fixed cost is the contribution margin per unit
  times the break-even units (over exact arithmetic).
\<close>

theorem break_even_identity:
  assumes "0 < total_quantity totals" and "0 < total_revenue totals"
  shows "\<exists>m. compute_metrics totals fixed_cost = Inr (Computed m)
    \<and> (cm_per_unit m \<noteq> 0 \<longrightarrow>
          (\<exists>b. break_even_units m = Fin b \<and> fixed_cost = cm_per_unit m * b))"
proof -
  obtain m where m: "compute_metrics totals fixed_cost = Inr (Computed m)"
    "break_even_units m = (if cm_per_unit m \<noteq> 0 then Fin (fixed_cost / cm_per_unit m) else PInf)"
    using compute_metrics_success [OF assms, of fixed_cost] by blast
  have "cm_per_unit m \<noteq> 0 \<longrightarrow>
          (\<exists>b. break_even_units m = Fin b \<and> fixed_cost = cm_per_unit m * b)"
    by (simp add: m(2))
  with m(1) show ?thesis by blast
qed

theorem break_even_identity_witness:
  "0 < total_quantity \<lparr> total_revenue = 5000, total_variable_cost = 2500, total_cm = 2500, total_quantity = 500 \<rparr>
   \<and> 0 < total_revenue \<lparr> total_revenue = 5000, total_variable_cost = 2500, total_cm = 2500, total_quantity = 500 \<rparr>
   \<and> (\<exists>m. compute_metrics \<lparr> total_revenue = 5000, total_variable_cost = 2500, total_cm = 2500, total_quantity = 500 \<rparr> 5000
            = Inr (Computed m)
        \<and> cm_per_unit m = 5 \<and> break_even_units m = Fin 1000 \<and> (5000::real) = cm_per_unit m * 1000)"
proof -
  let ?t = "\<lparr> total_revenue = 5000, total_variable_cost = 2500, total_cm = 2500, total_quantity = (500::real) \<rparr>"
  have q: "0 < total_quantity ?t" and r: "0 < total_revenue ?t" by simp_all
  obtain m where m: "compute_metrics ?t 5000 = Inr (Computed m)"
    "cm_per_unit m \<noteq> 0 \<longrightarrow> (\<exists>b. break_even_units m = Fin b \<and> 5000 = cm_per_unit m * b)"
    using break_even_identity [OF q r, of 5000] by blast
  obtain m' where m': "compute_metrics ?t 5000 = Inr (Computed m')"
    "cm_per_unit m' = total_cm ?t / total_quantity ?t"
    using compute_metrics_success [OF q r, of 5000] by blast
  from m(1) m' have c: "cm_per_unit m = 5" by simp
  with m(2) obtain b where b: "break_even_units m = Fin b" "5000 = 5 * b" by auto
  then have "b = 1000" by simp
  with b c m(1) q r show ?thesis by simp
qed


subsection \<open>The active rows and their totals\<close>

lemma truncate_add_columns: "product.truncate (add_columns p) = p"
  by (simp add: add_columns_def product.truncate_def Let_def)

lemma quantity_add_columns: "quantity_sold (add_columns p) = quantity_sold p"
  by (simp add: add_columns_def Let_def)

lemma df_active_append: "df_active (xs @ ys) = df_active xs @ df_active ys"
  by (simp add: df_active_def)

lemma df_active_inactive: "quantity_sold p \<le> 0 \<Longrightarrow> df_active (p # ps) = df_active ps"
  by (simp add: df_active_def)

lemma pool_Nil:
  "pool [] = \<lparr> total_revenue = 0, total_variable_cost = 0, total_cm = 0, total_quantity = 0 \<rparr>"
  by (simp add: pool_def)

lemma pool_add_columns:
  "pool (map add_columns ps) =
     \<lparr> total_revenue = (\<Sum>p\<leftarrow>ps. selling_price p * quantity_sold p),
       total_variable_cost = (\<Sum>p\<leftarrow>ps. variable_cost p * quantity_sold p),
       total_cm = (\<Sum>p\<leftarrow>ps. selling_price p * quantity_sold p - variable_cost p * quantity_sold p),
       total_quantity = (\<Sum>p\<leftarrow>ps. quantity_sold p) \<rparr>"
  by (simp add: pool_def add_columns_def Let_def comp_def)

lemma sum_list_positive:
  fixes f :: "'a \<Rightarrow> real"
  assumes "xs \<noteq> []" and "\<And>x. x \<in> set xs \<Longrightarrow> 0 < f x"
  shows "0 < sum_list (map f xs)"
  using assms
proof (induction xs)
  case Nil
  then show ?case by simp
next
  case (Cons x xs)
  show ?case
  proof (cases "xs = []")
    case True
    with Cons.prems show ?thesis by simp
  next
    case False
    with Cons have "0 < sum_list (map f xs)" by simp
    moreover have "0 < f x" using Cons.prems by simp
    ultimately show ?thesis by simp
  qed
qed

lemma active_quantity_positive:
  assumes "df_active ps \<noteq> []"
  shows "0 < total_quantity (pool (map add_columns (df_active ps)))"
proof -
  have "0 < (\<Sum>p\<leftarrow>df_active ps. quantity_sold p)"
    using assms by (intro sum_list_positive) (auto simp: df_active_def)
  then show ?thesis by (simp add: pool_add_columns)
qed

lemma sum_list_nonneg_zero:
  fixes f :: "'a \<Rightarrow> real"
  assumes "\<And>x. x \<in> set xs \<Longrightarrow> 0 \<le> f x"
  shows "0 \<le> sum_list (map f xs)"
  using assms by (induction xs) auto

subsection \<open>The sample units of the chart\<close>


lemma max_units_nonneg: "0 \<le> max_units tq"
  by (simp add: max_units_def py_int_def)

lemma units_step_eq: "0 \<le> mu \<Longrightarrow> units_step mu = Inr (max 1 (mu div 100))"
proof -
  assume "0 \<le> mu"
  have "\<lfloor>real_of_int mu / real_of_int 100\<rfloor> = mu div 100" by (rule floor_divide_of_int_eq)
  then have "\<lfloor>real_of_int mu / 100\<rfloor> = mu div 100" by simp
  with \<open>0 \<le> mu\<close> show ?thesis
    by (simp add: units_step_def fdiv_nonzero bind_r_Inr py_int_def)
qed

lemma units_eq:
  "units tq = Inr (map (\<lambda>k. int k * max 1 (max_units tq div 100))
                    [0..<nat (max_units tq div max 1 (max_units tq div 100) + 1)])"
proof -
  let ?s = "max 1 (max_units tq div 100)"
  have s: "0 < ?s" by simp
  have "(max_units tq + 1 - 0 + ?s - 1) div ?s = max_units tq div ?s + 1"
    using s by (simp add: div_add_self2 del: max.bounded_iff)
  then show ?thesis
    using s by (simp add: units_def units_step_eq max_units_nonneg bind_r_Inr py_range_def del: max.bounded_iff)
qed



subsection \<open>The chart lines and the marker\<close>

lemma map_r_Inr:
  assumes "\<And>x. x \<in> set xs \<Longrightarrow> f x = Inr (g x)"
  shows "map_r f xs = Inr (map g xs)"
  using assms by (induction xs) (simp_all add: bind_r_Inr)

lemma chart_series_success:
  assumes "total_quantity totals \<noteq> 0" and "units (total_quantity totals) = Inr us"
  shows "chart_series totals fixed_cost m =
     Inr \<lparr> x_limit = max_units (total_quantity totals), sample_units = us,
           total_cost_line =
             map (\<lambda>u. fixed_cost + total_variable_cost totals / total_quantity totals * of_int u) us,
           total_revenue_line =
             map (\<lambda>u. total_revenue totals / total_quantity totals * of_int u) us,
           be_x = break_even_units m,
           be_y = fadd (Fin fixed_cost)
                    (fmul (Fin (total_variable_cost totals / total_quantity totals))
                       (break_even_units m)) \<rparr>"
proof -
  have c: "map_r (cost_at totals fixed_cost) us =
      Inr (map (\<lambda>u. fixed_cost + total_variable_cost totals / total_quantity totals * of_int u) us)"
    using assms(1) by (intro map_r_Inr) (simp add: cost_at_def fdiv_nonzero bind_r_Inr)
  have r: "map_r (revenue_at totals) us =
      Inr (map (\<lambda>u. total_revenue totals / total_quantity totals * of_int u) us)"
    using assms(1) by (intro map_r_Inr) (simp add: revenue_at_def fdiv_nonzero bind_r_Inr)
  have y: "marker_y totals fixed_cost (break_even_units m) =
      Inr (fadd (Fin fixed_cost)
             (fmul (Fin (total_variable_cost totals / total_quantity totals)) (break_even_units m)))"
    using assms(1) by (simp add: marker_y_def fdiv_nonzero bind_r_Inr)
  show ?thesis
    by (simp add: chart_series_def assms(2) c r y bind_r_Inr)
qed

lemma units_first:
  "\<exists>us. units tq = Inr (0 # us)"
proof -
  have "0 < nat (max_units tq div max 1 (max_units tq div 100) + 1)"
    using max_units_nonneg [of tq] by (simp add: pos_imp_zdiv_nonneg_iff del: max.bounded_iff)
  then obtain n where n: "nat (max_units tq div max 1 (max_units tq div 100) + 1) = Suc n"
    using gr0_implies_Suc by blast
  show ?thesis
    unfolding units_eq n by (simp add: upt_conv_Cons del: upt_Suc)
qed

subsection \<open>The three outcomes of the script\<close>

lemma cvp_site_empty: "df_active ps = [] \<Longrightarrow> cvp_site fixed_cost ps = Inr EmptyActiveSet"
  by (simp add: cvp_site_def)

lemma cvp_site_warning:
  assumes "df_active ps \<noteq> []"
    and "\<not> (0 < total_quantity (snd (aggregate ps)) \<and> 0 < total_revenue (snd (aggregate ps)))"
  shows "cvp_site fixed_cost ps = Inr (Warning (fst (aggregate ps)))"
proof -
  have "compute_metrics (pool (map add_columns (df_active ps))) fixed_cost = Inr InsufficientData"
    using assms(2) by (intro compute_metrics_insufficient) (simp add: aggregate_def Let_def)
  then show ?thesis
    using assms(1) by (simp add: cvp_site_def Let_def aggregate_def bind_r_Inr)
qed

lemma cvp_site_results:
  assumes "df_active ps \<noteq> []"
    and "0 < total_quantity (snd (aggregate ps))" and "0 < total_revenue (snd (aggregate ps))"
  shows "\<exists>m c. compute_metrics (snd (aggregate ps)) fixed_cost = Inr (Computed m)
           \<and> chart_series (snd (aggregate ps)) fixed_cost m = Inr c
           \<and> cvp_site fixed_cost ps = Inr (Results (fst (aggregate ps)) (snd (aggregate ps)) m c)"
proof -
  obtain m where m: "compute_metrics (snd (aggregate ps)) fixed_cost = Inr (Computed m)"
    using compute_metrics_success [OF assms(2,3), of fixed_cost] by blast
  obtain us where us: "units (total_quantity (snd (aggregate ps))) = Inr (0 # us)"
    using units_first by blast
  have "total_quantity (snd (aggregate ps)) \<noteq> 0" using assms(2) by simp
  from chart_series_success [OF this us, of fixed_cost m]
  obtain c where c: "chart_series (snd (aggregate ps)) fixed_cost m = Inr c" by blast
  have "cvp_site fixed_cost ps = Inr (Results (fst (aggregate ps)) (snd (aggregate ps)) m c)"
    using assms(1) m c by (simp add: cvp_site_def Let_def aggregate_def bind_r_Inr)
  with m c show ?thesis by blast
qed

subsection \<open>Filtering and pooling\<close>

text \<open>
  C3. The summary rows are the rows of the products with a positive quantity, in their
  order; every summary row has a positive quantity; a product whose quantity is zero or
  negative changes neither the rows nor any total, wherever it stands in the list; and
  when no product has a positive quantity the rows are empty, every total is 0 and the
  script ends with the information message, not with an exception.
\<close>

theorem aggregate_filters_inactive:
  "map product.truncate (fst (aggregate ps)) = filter (\<lambda>p. 0 < quantity_sold p) ps
   \<and> (\<forall>r \<in> set (fst (aggregate ps)). 0 < quantity_sold r)
   \<and> (quantity_sold p \<le> 0 \<longrightarrow> aggregate (xs @ p # ys) = aggregate (xs @ ys))
   \<and> (filter (\<lambda>p. 0 < quantity_sold p) ps = [] \<longrightarrow>
        aggregate ps = ([], \<lparr> total_revenue = 0, total_variable_cost = 0, total_cm = 0,
                               total_quantity = 0 \<rparr>)
        \<and> cvp_site fixed_cost ps = Inr EmptyActiveSet)"
proof (intro conjI impI)
  show "map product.truncate (fst (aggregate ps)) = filter (\<lambda>p. 0 < quantity_sold p) ps"
    by (simp add: aggregate_def Let_def comp_def truncate_add_columns df_active_def)
  show "\<forall>r \<in> set (fst (aggregate ps)). 0 < quantity_sold r"
    by (auto simp: aggregate_def Let_def quantity_add_columns df_active_def)
  show "aggregate (xs @ p # ys) = aggregate (xs @ ys)" if "quantity_sold p \<le> 0"
    using that by (simp add: aggregate_def df_active_append df_active_inactive)
next
  assume "filter (\<lambda>p. 0 < quantity_sold p) ps = []"
  then have "df_active ps = []" by (simp add: df_active_def)
  then show "aggregate ps = ([], \<lparr> total_revenue = 0, total_variable_cost = 0, total_cm = 0,
                               total_quantity = 0 \<rparr>)"
    and "cvp_site fixed_cost ps = Inr EmptyActiveSet"
    by (simp_all add: aggregate_def pool_Nil cvp_site_empty)
qed

theorem aggregate_filters_inactive_witness:
  "map product.truncate
      (fst (aggregate [product_row ''A'' 10 5 500, product_row ''B'' 7 3 0, product_row ''C'' 2 1 (- 4)]))
     = [product_row ''A'' 10 5 500]
   \<and> list_all (\<lambda>r. 0 < quantity_sold r)
        (fst (aggregate [product_row ''A'' 10 5 500, product_row ''B'' 7 3 0,
                         product_row ''C'' 2 1 (- 4)]))
   \<and> quantity_sold (product_row ''B'' 7 3 0) \<le> 0
   \<and> aggregate ([product_row ''A'' 10 5 500] @ product_row ''B'' 7 3 0 # [product_row ''C'' 2 1 (- 4)])
       = aggregate ([product_row ''A'' 10 5 500] @ [product_row ''C'' 2 1 (- 4)])
   \<and> filter (\<lambda>p. 0 < quantity_sold p) [product_row ''B'' 7 3 0] = []
   \<and> aggregate [product_row ''B'' 7 3 0]
       = ([], \<lparr> total_revenue = 0, total_variable_cost = 0, total_cm = 0, total_quantity = 0 \<rparr>)
   \<and> cvp_site 5000 [product_row ''B'' 7 3 0] = Inr EmptyActiveSet"
proof -
  let ?a = "product_row ''A'' 10 5 500" and ?b = "product_row ''B'' 7 3 0"
    and ?c = "product_row ''C'' 2 1 (- 4)"
  note all = aggregate_filters_inactive [of "[?a, ?b, ?c]" ?b "[?a]" "[?c]" 5000]
  note none = aggregate_filters_inactive [of "[?b]" ?b "[]" "[]" 5000]
  have q: "quantity_sold ?b \<le> 0" by (simp add: product_row_def)
  have e: "filter (\<lambda>p. 0 < quantity_sold p) [?b] = []" by (simp add: product_row_def)
  have f: "filter (\<lambda>p. 0 < quantity_sold p) [?a, ?b, ?c] = [?a]" by (simp add: product_row_def)
  have 1: "map product.truncate (fst (aggregate [?a, ?b, ?c])) = [?a]"
    using all f by (simp only:)
  have 2: "list_all (\<lambda>r. 0 < quantity_sold r) (fst (aggregate [?a, ?b, ?c]))"
    using all unfolding list_all_iff by blast
  have 3: "aggregate ([?a] @ ?b # [?c]) = aggregate ([?a] @ [?c])"
    using all q by blast
  have 4: "aggregate [?b]
       = ([], \<lparr> total_revenue = 0, total_variable_cost = 0, total_cm = 0, total_quantity = 0 \<rparr>)"
    and 5: "cvp_site 5000 [?b] = Inr EmptyActiveSet"
    using none e by blast+
  from 1 2 q 3 e 4 5 show ?thesis by (intro conjI)
qed

text \<open>
  C4. Each pooled total is the sum of its column over the summary rows, which is the sum
  over the products with a positive quantity of price times quantity, of variable cost
  times quantity, of the difference of the two, and of the quantity.
\<close>

theorem pooled_totals_are_sums:
  "snd (aggregate ps) = pool (fst (aggregate ps))
   \<and> total_revenue (snd (aggregate ps)) = sum_list (map row_total_revenue (fst (aggregate ps)))
   \<and> total_variable_cost (snd (aggregate ps))
        = sum_list (map row_total_variable_cost (fst (aggregate ps)))
   \<and> total_cm (snd (aggregate ps)) = sum_list (map row_contribution_margin (fst (aggregate ps)))
   \<and> total_quantity (snd (aggregate ps)) = sum_list (map quantity_sold (fst (aggregate ps)))
   \<and> total_revenue (snd (aggregate ps))
        = (\<Sum>p\<leftarrow>filter (\<lambda>p. 0 < quantity_sold p) ps. selling_price p * quantity_sold p)
   \<and> total_variable_cost (snd (aggregate ps))
        = (\<Sum>p\<leftarrow>filter (\<lambda>p. 0 < quantity_sold p) ps. variable_cost p * quantity_sold p)
   \<and> total_cm (snd (aggregate ps))
        = (\<Sum>p\<leftarrow>filter (\<lambda>p. 0 < quantity_sold p) ps.
              selling_price p * quantity_sold p - variable_cost p * quantity_sold p)
   \<and> total_quantity (snd (aggregate ps))
        = (\<Sum>p\<leftarrow>filter (\<lambda>p. 0 < quantity_sold p) ps. quantity_sold p)"
proof -
  have a: "fst (aggregate ps) = map add_columns (df_active ps)"
    and b: "snd (aggregate ps) = pool (map add_columns (df_active ps))"
    by (simp_all add: aggregate_def Let_def)
  have c: "df_active ps = filter (\<lambda>p. 0 < quantity_sold p) ps" by (simp add: df_active_def)
  show ?thesis
    unfolding a b
    apply (intro conjI)
    apply (simp_all add: pool_def)
    apply (simp_all add: c add_columns_def Let_def comp_def)
    done
qed

theorem pooled_totals_are_sums_witness:
  "snd (aggregate [product_row ''A'' 10 5 500, product_row ''B'' 20 10 250, product_row ''C'' 9 9 0])
     = \<lparr> total_revenue = 10000, total_variable_cost = 5000, total_cm = 5000, total_quantity = 750 \<rparr>
   \<and> map row_total_revenue
        (fst (aggregate [product_row ''A'' 10 5 500, product_row ''B'' 20 10 250, product_row ''C'' 9 9 0]))
       = [5000, 5000]"
  using pooled_totals_are_sums
          [of "[product_row ''A'' 10 5 500, product_row ''B'' 20 10 250, product_row ''C'' 9 9 0]"]
  by (simp add: product_row_def aggregate_def df_active_def add_columns_def pool_def)

subsection \<open>The domain of the chart\<close>

lemma units_one: "units 1 = Inr [0, 1]"
  by (simp add: units_eq max_units_def py_int_def upt_rec)





subsection \<open>The lines of the chart and the break-even marker\<close>

text \<open>
  C7. When the pooled quantity is positive the chart is built, and at every sample unit
  the cost line is the fixed cost plus the pooled variable cost per unit times the unit,
  and the revenue line is the pooled revenue per unit times the unit. The first sample
  unit is 0, where the cost line is the fixed cost and the revenue line is 0.
\<close>

theorem chart_line_formulas:
  assumes "0 < total_quantity totals"
  shows "\<exists>c. chart_series totals fixed_cost m = Inr c
    \<and> length (total_cost_line c) = length (sample_units c)
    \<and> length (total_revenue_line c) = length (sample_units c)
    \<and> (\<forall>i < length (sample_units c).
          total_cost_line c ! i
            = fixed_cost + (total_variable_cost totals / total_quantity totals)
                             * of_int (sample_units c ! i)
          \<and> total_revenue_line c ! i
            = (total_revenue totals / total_quantity totals) * of_int (sample_units c ! i))
    \<and> sample_units c \<noteq> [] \<and> sample_units c ! 0 = 0
    \<and> total_cost_line c ! 0 = fixed_cost \<and> total_revenue_line c ! 0 = 0"
proof -
  obtain xs where xs: "units (total_quantity totals) = Inr xs" and n: "xs \<noteq> []" and z: "xs ! 0 = 0"
    using units_first [of "total_quantity totals"] by auto
  have l: "0 < length xs" using n by simp
  have "total_quantity totals \<noteq> 0" using assms by simp
  note c = chart_series_success [OF this xs, of fixed_cost m]
  show ?thesis
    unfolding c using n z l by simp
qed

theorem chart_line_formulas_witness:
  "0 < total_quantity \<lparr> total_revenue = 10, total_variable_cost = 5, total_cm = 5, total_quantity = 1 \<rparr>
   \<and> (\<exists>c. chart_series
             \<lparr> total_revenue = 10, total_variable_cost = 5, total_cm = 5, total_quantity = 1 \<rparr> 7
             \<lparr> cm_per_unit = 5, cm_ratio = 1 / 2, vc_ratio = 1 / 2, break_even_units = Fin (7 / 5),
               break_even_dollars = Fin 14, mos_units = Fin (- 2 / 5), mos_dollars = Fin (- 4),
               net_operating_income = - 2, dol = Fin (- 5 / 2) \<rparr> = Inr c
         \<and> sample_units c = [0, 1] \<and> total_cost_line c = [7, 12]
         \<and> total_revenue_line c = [0, 10])"
proof -
  let ?t = "\<lparr> total_revenue = 10, total_variable_cost = 5, total_cm = 5, total_quantity = (1::real) \<rparr>"
  let ?m = "\<lparr> cm_per_unit = 5, cm_ratio = 1 / 2, vc_ratio = 1 / 2, break_even_units = Fin (7 / 5),
               break_even_dollars = Fin 14, mos_units = Fin (- 2 / 5), mos_dollars = Fin (- 4),
               net_operating_income = - 2, dol = Fin (- 5 / 2) \<rparr>"
  have q: "0 < total_quantity ?t" by simp
  obtain c where c: "chart_series ?t 7 ?m = Inr c"
    and len: "length (total_cost_line c) = length (sample_units c)"
      "length (total_revenue_line c) = length (sample_units c)"
    and at: "\<forall>i < length (sample_units c).
          total_cost_line c ! i
            = 7 + (total_variable_cost ?t / total_quantity ?t) * of_int (sample_units c ! i)
          \<and> total_revenue_line c ! i
            = (total_revenue ?t / total_quantity ?t) * of_int (sample_units c ! i)"
    using chart_line_formulas [OF q, of 7 ?m] by blast
  have "units (total_quantity ?t) = Inr [0, 1]" by (simp add: units_one)
  from chart_series_success [OF _ this, of 7 ?m] c
  have u: "sample_units c = [0, 1]" by auto
  from at u have "total_cost_line c ! 0 = 7" "total_cost_line c ! 1 = 12"
    "total_revenue_line c ! 0 = 0" "total_revenue_line c ! 1 = 10"
    by simp_all
  moreover from len u have "length (total_cost_line c) = 2" "length (total_revenue_line c) = 2"
    by simp_all
  ultimately have "total_cost_line c = [7, 12]" "total_revenue_line c = [0, 10]"
    by (simp_all add: list_eq_iff_nth_eq nth_Cons' less_Suc_eq numeral_2_eq_2)
  with q c u show ?thesis by blast
qed

text \<open>
  C8. When the pooled quantity and revenue are positive, the break-even marker of the
  chart is the pair of the break-even units and of the fixed cost plus the pooled variable
  cost per unit times the break-even units; with a nonzero contribution margin per unit
  both coordinates are finite.
\<close>

theorem break_even_marker:
  assumes "0 < total_quantity totals" and "0 < total_revenue totals"
  shows "\<exists>m c. compute_metrics totals fixed_cost = Inr (Computed m)
    \<and> chart_series totals fixed_cost m = Inr c
    \<and> (be_x c, be_y c)
        = (break_even_units m,
           fadd (Fin fixed_cost)
             (fmul (Fin (total_variable_cost totals / total_quantity totals)) (break_even_units m)))
    \<and> (cm_per_unit m \<noteq> 0 \<longrightarrow>
          (be_x c, be_y c)
            = (Fin (fixed_cost / cm_per_unit m),
               Fin (fixed_cost + total_variable_cost totals / total_quantity totals
                                   * (fixed_cost / cm_per_unit m))))"
proof -
  obtain m where m: "compute_metrics totals fixed_cost = Inr (Computed m)"
    and b: "break_even_units m
              = (if cm_per_unit m \<noteq> 0 then Fin (fixed_cost / cm_per_unit m) else PInf)"
    using compute_metrics_success [OF assms, of fixed_cost] by blast
  obtain us where us: "units (total_quantity totals) = Inr (0 # us)"
    using units_first by blast
  have "total_quantity totals \<noteq> 0" using assms(1) by simp
  note c = chart_series_success [OF this us, of fixed_cost m]
  show ?thesis
    by (intro exI conjI, rule m, rule c) (simp_all add: b)
qed

theorem break_even_marker_witness:
  "0 < total_quantity \<lparr> total_revenue = 5000, total_variable_cost = 2500, total_cm = 2500, total_quantity = 500 \<rparr>
   \<and> 0 < total_revenue \<lparr> total_revenue = 5000, total_variable_cost = 2500, total_cm = 2500, total_quantity = 500 \<rparr>
   \<and> (\<exists>m c. compute_metrics \<lparr> total_revenue = 5000, total_variable_cost = 2500, total_cm = 2500, total_quantity = 500 \<rparr> 5000
              = Inr (Computed m)
          \<and> chart_series \<lparr> total_revenue = 5000, total_variable_cost = 2500, total_cm = 2500, total_quantity = 500 \<rparr> 5000 m
              = Inr c
          \<and> cm_per_unit m \<noteq> 0 \<and> (be_x c, be_y c) = (Fin 1000, Fin 10000))"
proof -
  let ?t = "\<lparr> total_revenue = 5000, total_variable_cost = 2500, total_cm = 2500, total_quantity = (500::real) \<rparr>"
  have q: "0 < total_quantity ?t" and r: "0 < total_revenue ?t" by simp_all
  obtain m c where m: "compute_metrics ?t 5000 = Inr (Computed m)"
    and c: "chart_series ?t 5000 m = Inr c"
    and f: "cm_per_unit m \<noteq> 0 \<longrightarrow>
          (be_x c, be_y c)
            = (Fin (5000 / cm_per_unit m),
               Fin (5000 + total_variable_cost ?t / total_quantity ?t * (5000 / cm_per_unit m)))"
    using break_even_marker [OF q r, of 5000] by blast
  obtain m' where m': "compute_metrics ?t 5000 = Inr (Computed m')"
    "cm_per_unit m' = total_cm ?t / total_quantity ?t"
    using compute_metrics_success [OF q r, of 5000] by blast
  from m m' have u: "cm_per_unit m = 5" by simp
  with f have "(be_x c, be_y c) = (Fin 1000, Fin 10000)" by simp
  with q r m c u show ?thesis by auto
qed

subsection \<open>Guarded divisions and the warning\<close>

text \<open>
  C9. No division of the script is evaluated with a zero divisor: for every fixed cost
  and every list of products, also with negative values, the metrics and the whole
  script return a result and never raise ZeroDivisionError.
\<close>

theorem no_division_by_zero:
  "(\<exists>r. compute_metrics totals fixed_cost = Inr r)
   \<and> (\<exists>out. cvp_site fixed_cost products = Inr out)
   \<and> cvp_site fixed_cost products \<noteq> Inl ZeroDivisionError"
proof -
  have m: "\<exists>r. compute_metrics totals fixed_cost = Inr r"
  proof (cases "0 < total_quantity totals \<and> 0 < total_revenue totals")
    case True
    then show ?thesis using compute_metrics_success [of totals fixed_cost] by blast
  next
    case False
    then show ?thesis by (simp add: compute_metrics_insufficient)
  qed
  have s: "\<exists>out. cvp_site fixed_cost products = Inr out"
  proof (cases "df_active products = []")
    case True
    then show ?thesis by (simp add: cvp_site_empty)
  next
    case active: False
    show ?thesis
    proof (cases "0 < total_quantity (snd (aggregate products))
                  \<and> 0 < total_revenue (snd (aggregate products))")
      case True
      then show ?thesis using cvp_site_results [OF active, of fixed_cost] by blast
    next
      case False
      then show ?thesis using cvp_site_warning [OF active, of fixed_cost] by blast
    qed
  qed
  from s have "cvp_site fixed_cost products \<noteq> Inl ZeroDivisionError" by auto
  with m s show ?thesis by blast
qed

theorem no_division_by_zero_witness:
  "(\<exists>r. compute_metrics \<lparr> total_revenue = 0, total_variable_cost = 0, total_cm = 0,
                            total_quantity = 0 \<rparr> 0 = Inr r)
   \<and> (\<exists>out. cvp_site 0 [product_row ''A'' 5 5 1] = Inr out)
   \<and> cvp_site 0 [product_row ''A'' 0 5 100] \<noteq> Inl ZeroDivisionError"
  using no_division_by_zero
          [of "\<lparr> total_revenue = 0, total_variable_cost = 0, total_cm = 0, total_quantity = 0 \<rparr>"
              0 "[product_row ''A'' 5 5 1]"]
        no_division_by_zero
          [of "\<lparr> total_revenue = 0, total_variable_cost = 0, total_cm = 0, total_quantity = 0 \<rparr>"
              0 "[product_row ''A'' 0 5 100]"]
  by blast

text \<open>
  C10. When at least one product has a positive quantity the pooled quantity is positive,
  so the metrics are refused, and the warning is shown, exactly when the pooled revenue
  is not positive; with selling prices that are not negative, as the inputs enforce,
  that is exactly when the pooled revenue is 0.
\<close>

theorem insufficient_data_only_from_revenue:
  assumes "fst (aggregate ps) \<noteq> []"
  shows "0 < total_quantity (snd (aggregate ps))
    \<and> (compute_metrics (snd (aggregate ps)) fixed_cost = Inr InsufficientData
          \<longleftrightarrow> total_revenue (snd (aggregate ps)) \<le> 0)
    \<and> (cvp_site fixed_cost ps = Inr (Warning (fst (aggregate ps)))
          \<longleftrightarrow> total_revenue (snd (aggregate ps)) \<le> 0)
    \<and> ((\<forall>p \<in> set ps. 0 \<le> selling_price p) \<longrightarrow>
          0 \<le> total_revenue (snd (aggregate ps))
          \<and> (compute_metrics (snd (aggregate ps)) fixed_cost = Inr InsufficientData
                \<longleftrightarrow> total_revenue (snd (aggregate ps)) = 0)
          \<and> (cvp_site fixed_cost ps = Inr (Warning (fst (aggregate ps)))
                \<longleftrightarrow> total_revenue (snd (aggregate ps)) = 0))"
proof -
  let ?t = "snd (aggregate ps)"
  have active: "df_active ps \<noteq> []" using assms by (simp add: aggregate_def Let_def)
  have t: "?t = pool (map add_columns (df_active ps))" by (simp add: aggregate_def Let_def)
  have q: "0 < total_quantity ?t" unfolding t using active by (rule active_quantity_positive)
  have cm: "compute_metrics ?t fixed_cost = Inr InsufficientData \<longleftrightarrow> total_revenue ?t \<le> 0"
  proof (cases "0 < total_revenue ?t")
    case True
    then show ?thesis using compute_metrics_success [OF q True, of fixed_cost] by auto
  next
    case False
    then show ?thesis using compute_metrics_insufficient [of ?t fixed_cost] by auto
  qed
  have cs: "cvp_site fixed_cost ps = Inr (Warning (fst (aggregate ps))) \<longleftrightarrow> total_revenue ?t \<le> 0"
  proof (cases "0 < total_revenue ?t")
    case True
    then show ?thesis using cvp_site_results [OF active q True, of fixed_cost] by auto
  next
    case False
    then show ?thesis using cvp_site_warning [OF active, of fixed_cost] by auto
  qed
  have nn: "0 \<le> total_revenue ?t" if "\<forall>p \<in> set ps. 0 \<le> selling_price p"
  proof -
    have "0 \<le> (\<Sum>p\<leftarrow>df_active ps. selling_price p * quantity_sold p)"
      using that by (intro sum_list_nonneg_zero) (auto simp: df_active_def)
    then show ?thesis by (simp add: t pool_add_columns)
  qed
  show ?thesis
    using q cm cs nn by (intro conjI impI) auto
qed

theorem insufficient_data_only_from_revenue_witness:
  "fst (aggregate [product_row ''A'' 0 5 100, product_row ''B'' 3 1 0]) \<noteq> []
   \<and> list_all (\<lambda>p. 0 \<le> selling_price p) [product_row ''A'' 0 5 100, product_row ''B'' 3 1 0]
   \<and> 0 < total_quantity (snd (aggregate [product_row ''A'' 0 5 100, product_row ''B'' 3 1 0]))
   \<and> total_revenue (snd (aggregate [product_row ''A'' 0 5 100, product_row ''B'' 3 1 0])) = 0
   \<and> compute_metrics (snd (aggregate [product_row ''A'' 0 5 100, product_row ''B'' 3 1 0])) 5000
        = Inr InsufficientData
   \<and> cvp_site 5000 [product_row ''A'' 0 5 100, product_row ''B'' 3 1 0]
        = Inr (Warning (fst (aggregate [product_row ''A'' 0 5 100, product_row ''B'' 3 1 0])))"
proof -
  let ?ps = "[product_row ''A'' 0 5 100, product_row ''B'' 3 1 0]"
  have a: "fst (aggregate ?ps) \<noteq> []"
    by (simp add: aggregate_def Let_def df_active_def product_row_def)
  have n: "\<forall>p \<in> set ?ps. 0 \<le> selling_price p" by (simp add: product_row_def)
  have z: "total_revenue (snd (aggregate ?ps)) = 0"
    by (simp add: aggregate_def Let_def df_active_def product_row_def pool_def add_columns_def)
  from insufficient_data_only_from_revenue [OF a, of 5000] n z
  have r: "0 < total_quantity (snd (aggregate ?ps))"
    "compute_metrics (snd (aggregate ?ps)) 5000 = Inr InsufficientData"
    "cvp_site 5000 ?ps = Inr (Warning (fst (aggregate ?ps)))"
    by blast+
  have n': "list_all (\<lambda>p. 0 \<le> selling_price p) ?ps" using n unfolding list_all_iff .
  from a n' r(1) z r(2,3) show ?thesis by (intro conjI)
qed

end
